theory Spec2Isabelle
  imports Complex_Main "HOL-Library.AList" "HOL-Library.Sublist"
begin

section \<open>Numbers, dates and price series\<close>

text \<open>
  The script works on Python floats. Here a number is an exact rational: the model keeps
  the control flow and the formulas of the source and leaves IEEE rounding, NaN and
  infinities out. The built-in \<^verbatim>\<open>round(x, n)\<close> and the format specifications
  (\<^verbatim>\<open>{w:5.2f}\<close>) belong to the language, not to the script; every function that calls
  one takes it as an argument, so each theorem holds for whatever these functions compute.

  A pandas price series is the list of its observations in positional order; an index
  entry is a day number, so that \<^verbatim>\<open>index - timedelta(days=d)\<close> is a subtraction.
\<close>

type_synonym observation = "int \<times> rat"
type_synonym series = "observation list"

text \<open>\<^verbatim>\<open>pct_change(series, days)\<close>; \<open>None\<close> is Python's \<^verbatim>\<open>None\<close>.\<close>

definition pct_change :: "(rat \<Rightarrow> rat) \<Rightarrow> series \<Rightarrow> int \<Rightarrow> rat option" where
  "pct_change round1 series days =
     (if series = [] then None
      else
        let end_price = snd (last series);
            cutoff_date = fst (last series) - days;
            window = filter (\<lambda>ob. cutoff_date \<le> fst ob) series
        in if window = [] then None
           else
             let start_price = snd (hd window)
             in if start_price = 0 then None
                else Some (round1 ((end_price / start_price - 1) * 100)))"

text \<open>
  The specification's reading of the start price, written without reference to the
  code: among the observations dated on or after the cutoff, the one of least date
  (the first of them when several share that date).
\<close>

definition cutoff_of :: "series \<Rightarrow> int \<Rightarrow> int" where
  "cutoff_of s days = fst (last s) - days"

definition on_or_after :: "int \<Rightarrow> series \<Rightarrow> series" where
  "on_or_after c s = [ob \<leftarrow> s. c \<le> fst ob]"

definition start_price_spec :: "series \<Rightarrow> int \<Rightarrow> rat" where
  "start_price_spec s days = snd (arg_min_list fst (on_or_after (cutoff_of s days) s))"

definition ascending :: "series \<Rightarrow> bool" where
  "ascending s = sorted (map fst s)"

section \<open>Python values and built-ins\<close>

text \<open>
  Exceptions are values: a function that can raise returns \<open>py_error + 'a\<close>, with
  \<open>Inl\<close> the exception that leaves the function. \<open>RequestFailed\<close> stands for whatever a
  network request, an HTTP status check or a JSON decoder raises.
\<close>

datatype py_error = RequestFailed | AttributeError | TypeError | ValueError | KeyError | ReError

text \<open>A decoded JSON payload; a \<open>JDict\<close> lists its items in insertion order, keys distinct.\<close>

datatype json =
    JNull
  | JBool bool
  | JNum rat
  | JStr string
  | JList "json list"
  | JDict "(string \<times> json) list"

text \<open>
  The built-ins of the language that the script calls and that this development does not
  define: \<^verbatim>\<open>round(x, n)\<close>, \<^verbatim>\<open>float(s)\<close> on a string (\<open>None\<close> where it raises
  \<^verbatim>\<open>ValueError\<close>), \<^verbatim>\<open>str(x)\<close> on a decoded JSON value, \<^verbatim>\<open>format(x, spec)\<close>, and
  the Unicode tables behind the classes \<^verbatim>\<open>\w\<close> and \<^verbatim>\<open>\d\<close> of a regular expression:
  whether a character outside ASCII, given by its UTF-8 bytes, is alphanumeric, and
  whether it is a decimal digit.
\<close>

record builtins =
  py_round :: "rat \<Rightarrow> nat \<Rightarrow> rat"
  py_float :: "string \<Rightarrow> rat option"
  py_str :: "json \<Rightarrow> string"
  py_format :: "string \<Rightarrow> rat \<Rightarrow> string"
  uni_word :: "string \<Rightarrow> bool"
  uni_digit :: "string \<Rightarrow> bool"

text \<open>Truth value of an object, and \<^verbatim>\<open>a or b\<close>.\<close>

fun truthy :: "json \<Rightarrow> bool" where
  "truthy JNull = False"
| "truthy (JBool b) = b"
| "truthy (JNum x) = (x \<noteq> 0)"
| "truthy (JStr s) = (s \<noteq> [])"
| "truthy (JList xs) = (xs \<noteq> [])"
| "truthy (JDict d) = (d \<noteq> [])"

definition py_or :: "json \<Rightarrow> json \<Rightarrow> json" where
  "py_or a b = (if truthy a then a else b)"

text \<open>\<^verbatim>\<open>d.get(k)\<close> on a dict, and on an arbitrary object (only a dict has the method).\<close>

definition dict_get :: "(string \<times> json) list \<Rightarrow> string \<Rightarrow> json" where
  "dict_get d k = (case map_of d k of None \<Rightarrow> JNull | Some v \<Rightarrow> v)"

definition obj_get :: "json \<Rightarrow> string \<Rightarrow> py_error + json" where
  "obj_get x k = (case x of JDict d \<Rightarrow> Inr (dict_get d k) | _ \<Rightarrow> Inl AttributeError)"

text \<open>
  Strings are byte strings. \<^verbatim>\<open>str.strip\<close>, \<^verbatim>\<open>str.lower\<close> and \<^verbatim>\<open>str.isalnum\<close> are
  given on ASCII, where they agree with Python; \<^verbatim>\<open>a in b\<close> and \<^verbatim>\<open>str.replace\<close> are exact.
  The script calls \<^verbatim>\<open>replace\<close> with a non-empty literal as its first argument only.
\<close>

definition py_isspace :: "char \<Rightarrow> bool" where
  "py_isspace c = (let n = (of_char c :: nat) in (9 \<le> n \<and> n \<le> 13) \<or> (28 \<le> n \<and> n \<le> 32))"

definition strip :: "string \<Rightarrow> string" where
  "strip s = rev (dropWhile py_isspace (rev (dropWhile py_isspace s)))"

definition lower_char :: "char \<Rightarrow> char" where
  "lower_char c =
     (case map_of (zip ''ABCDEFGHIJKLMNOPQRSTUVWXYZ'' ''abcdefghijklmnopqrstuvwxyz'') c of
        None \<Rightarrow> c
      | Some l \<Rightarrow> l)"

definition lower :: "string \<Rightarrow> string" where
  "lower s = map lower_char s"

definition isalnum_char :: "char \<Rightarrow> bool" where
  "isalnum_char c =
     (let n = (of_char c :: nat) in (48 \<le> n \<and> n \<le> 57) \<or> (65 \<le> n \<and> n \<le> 90) \<or> (97 \<le> n \<and> n \<le> 122))"

definition isalnum :: "string \<Rightarrow> bool" where
  "isalnum s = (s \<noteq> [] \<and> list_all isalnum_char s)"

fun contains :: "string \<Rightarrow> string \<Rightarrow> bool" where
  "contains needle [] = (needle = [])"
| "contains needle (c # cs) = (prefix needle (c # cs) \<or> contains needle cs)"

function replace :: "string \<Rightarrow> string \<Rightarrow> string \<Rightarrow> string" where
  "replace old new [] = []"
| "replace old new (c # cs) =
     (if old \<noteq> [] \<and> prefix old (c # cs)
      then new @ replace old new (drop (length old) (c # cs))
      else c # replace old new cs)"
  by pat_completeness auto
termination
  by (relation "measure (\<lambda>(old, new, s). length s)") auto

text \<open>\<^verbatim>\<open>xs[:n]\<close>; a negative \<open>n\<close> counts from the end.\<close>

definition py_take :: "int \<Rightarrow> 'a list \<Rightarrow> 'a list" where
  "py_take n xs = (if 0 \<le> n then take (nat n) xs else take (length xs - nat (- n)) xs)"

text \<open>\<^verbatim>\<open>x.strip()\<close> on an object: only a string has the method.\<close>

definition obj_strip :: "json \<Rightarrow> py_error + string" where
  "obj_strip x = (case x of JStr s \<Rightarrow> Inr (strip s) | _ \<Rightarrow> Inl AttributeError)"

text \<open>\<^verbatim>\<open>float(x)\<close> on an object.\<close>

definition float_of :: "builtins \<Rightarrow> json \<Rightarrow> py_error + rat" where
  "float_of L x =
     (case x of
        JNum r \<Rightarrow> Inr r
      | JBool b \<Rightarrow> Inr (if b then 1 else 0)
      | JStr s \<Rightarrow> (case py_float L s of None \<Rightarrow> Inl ValueError | Some r \<Rightarrow> Inr r)
      | _ \<Rightarrow> Inl TypeError)"

section \<open>Configuration\<close>

definition ETF_ISINS :: "(string \<times> string) list" where
  "ETF_ISINS =
     [(''XUTC'', ''IE00BGQYRS42''), (''SP20'', ''IE000VA628D5''), (''EQQQ'', ''IE0032077012''),
      (''WTAI'', ''IE00BDVPNG13''), (''CSPX'', ''IE00B5BMR087''), (''VWCE'', ''IE00BK5BQT80'')]"

definition ETF_YF_TICKERS :: "(string \<times> string) list" where
  "ETF_YF_TICKERS =
     [(''XUTC'', ''XUTC.L''), (''SP20'', ''SP20.L''), (''EQQQ'', ''EQQQ.L''),
      (''WTAI'', ''WTAI.L''), (''CSPX'', ''CSPX.L''), (''VWCE'', ''VWCE.L'')]"

definition PERIOD_DAYS :: "(string \<times> int) list" where
  "PERIOD_DAYS =
     [(''1M'', 31), (''3M'', 92), (''6M'', 183), (''1Y'', 365), (''3Y'', 365 * 3), (''5Y'', 365 * 5)]"

text \<open>The six canonical periods, in the order both serializers and \<open>PERIOD_DAYS\<close> list them.\<close>

definition PERIODS :: "string list" where
  "PERIODS = [''1M'', ''3M'', ''6M'', ''1Y'', ''3Y'', ''5Y'']"

definition ETFS :: "string list" where
  "ETFS = [''XUTC'', ''SP20'', ''EQQQ'', ''WTAI'', ''CSPX'', ''VWCE'']"

section \<open>Holdings chain\<close>

record holding =
  ticker :: string
  name :: string
  weight :: rat

text \<open>
  One pass of the loop body of \<^verbatim>\<open>fetch_holdings_api\<close> over an item of the payload:
  \<open>Inr None\<close> when the item's weight is not positive, \<open>Inl\<close> when the body raises.
\<close>

definition api_item :: "builtins \<Rightarrow> json \<Rightarrow> py_error + holding option" where
  "api_item L item =
     (case item of
        JDict d \<Rightarrow>
          (case obj_strip (py_or (dict_get d ''ticker'')
                  (py_or (dict_get d ''symbol'') (py_or (dict_get d ''isin'') (JStr '''')))) of
             Inl e \<Rightarrow> Inl e
           | Inr t \<Rightarrow>
               (case obj_strip (py_or (dict_get d ''name'')
                       (py_or (dict_get d ''description'') (JStr ''''))) of
                  Inl e \<Rightarrow> Inl e
                | Inr n \<Rightarrow>
                    (case float_of L (py_or (dict_get d ''weight'')
                            (py_or (dict_get d ''percentage'') (JNum 0))) of
                       Inl e \<Rightarrow> Inl e
                     | Inr w \<Rightarrow>
                         Inr (if 0 < w
                              then Some \<lparr>ticker = t, name = n, weight = py_round L w 2\<rparr>
                              else None))))
      | _ \<Rightarrow> Inl AttributeError)"

fun api_items :: "builtins \<Rightarrow> json list \<Rightarrow> py_error + holding list" where
  "api_items L [] = Inr []"
| "api_items L (item # rest) =
     (case api_item L item of
        Inl e \<Rightarrow> Inl e
      | Inr h \<Rightarrow>
          (case api_items L rest of
             Inl e \<Rightarrow> Inl e
           | Inr hs \<Rightarrow> Inr (case h of None \<Rightarrow> hs | Some x \<Rightarrow> x # hs)))"

text \<open>
  The list the API payload holds its holdings under: \<^verbatim>\<open>topHoldings\<close>, then
  \<^verbatim>\<open>holdings\<close>, then the first key whose value is a non-empty list with a first item
  that mentions a weight.
\<close>

definition mentions_weight :: "builtins \<Rightarrow> json \<Rightarrow> bool" where
  "mentions_weight L v =
     (case v of JList (x # xs) \<Rightarrow> contains ''weight'' (lower (py_str L x)) | _ \<Rightarrow> False)"

definition find_raw :: "builtins \<Rightarrow> (string \<times> json) list \<Rightarrow> json" where
  "find_raw L d =
     (let raw = py_or (dict_get d ''topHoldings'') (py_or (dict_get d ''holdings'') (JList []))
      in if truthy raw then raw
         else (case find (\<lambda>kv. mentions_weight L (snd kv)) d of
                 Some kv \<Rightarrow> snd kv
               | None \<Rightarrow> raw))"

text \<open>
  The items of \<^verbatim>\<open>raw[:top_n]\<close> for a truthy \<open>raw\<close>: a string is sliced and iterated by
  character; a dict, a number and \<^verbatim>\<open>True\<close> cannot be sliced.
\<close>

definition slice_items :: "json \<Rightarrow> int \<Rightarrow> py_error + json list" where
  "slice_items raw top_n =
     (case raw of
        JList xs \<Rightarrow> Inr (py_take top_n xs)
      | JStr s \<Rightarrow> Inr (map (\<lambda>c. JStr [c]) (py_take top_n s))
      | _ \<Rightarrow> Inl TypeError)"

text \<open>
  The profile page as the scraper reads it: for a CSS selector, the matching table rows,
  each the list of the texts of its cells.
\<close>

type_synonym soup = "string \<Rightarrow> string list list"

definition HOLDINGS_SELECTORS :: "string list" where
  "HOLDINGS_SELECTORS =
     [''table.etf-holdings tbody tr'', ''div#etf-holdings table tbody tr'',
      ''div.holdings-table tbody tr'', ''section.etf-holdings-section table tbody tr'',
      ''table tbody tr'']"

definition html_row :: "builtins \<Rightarrow> string list \<Rightarrow> holding option" where
  "html_row L cells =
     (if length cells < 3 then None
      else
        let weight_raw = strip (replace ''%'' '''' (replace '','' ''.'' (last cells)))
        in case py_float L weight_raw of
             None \<Rightarrow> None
           | Some x \<Rightarrow>
               let w = py_round L x 2
               in if w \<le> 0 then None
                  else Some \<lparr>ticker = cells ! 2, name = cells ! 1, weight = w\<rparr>)"

fun html_selectors :: "builtins \<Rightarrow> soup \<Rightarrow> int \<Rightarrow> string list \<Rightarrow> holding list" where
  "html_selectors L page top_n [] = []"
| "html_selectors L page top_n (selector # rest) =
     (let rows = page selector
      in if rows = [] then html_selectors L page top_n rest
         else
           let holdings = List.map_filter (html_row L) (py_take top_n rows)
           in if holdings \<noteq> [] then holdings else html_selectors L page top_n rest)"

definition fetch_holdings_html ::
  "builtins \<Rightarrow> py_error + soup \<Rightarrow> int \<Rightarrow> holding list option" where
  "fetch_holdings_html L response top_n =
     (case response of
        Inl e \<Rightarrow> None
      | Inr page \<Rightarrow>
          let holdings = html_selectors L page top_n HOLDINGS_SELECTORS
          in if holdings \<noteq> [] then Some holdings else None)"

text \<open>
  \<^verbatim>\<open>fetch_holdings_api\<close>. \<open>response\<close> is the outcome of the guarded request (the
  decoded payload, or the exception the \<^verbatim>\<open>try\<close> block caught), \<open>html_response\<close> that of
  the request \<^verbatim>\<open>fetch_holdings_html\<close> would make.
\<close>

definition fetch_holdings_api ::
  "builtins \<Rightarrow> py_error + json \<Rightarrow> py_error + soup \<Rightarrow> int \<Rightarrow> py_error + holding list option" where
  "fetch_holdings_api L response html_response top_n =
     (case response of
        Inl e \<Rightarrow> Inr None
      | Inr data \<Rightarrow>
          (case data of
             JDict d \<Rightarrow>
               let raw = find_raw L d
               in if \<not> truthy raw then Inr None
                  else
                    (case slice_items raw top_n of
                       Inl e \<Rightarrow> Inl e
                     | Inr items \<Rightarrow>
                         (case api_items L items of
                            Inl e \<Rightarrow> Inl e
                          | Inr holdings \<Rightarrow>
                              if holdings \<noteq> [] then Inr (Some holdings)
                              else Inr (fetch_holdings_html L html_response top_n)))
           | _ \<Rightarrow> Inl AttributeError))"

section \<open>ETF returns chain\<close>

text \<open>The two label tables, and \<^verbatim>\<open>LABEL_MAP.get\<close> on each.\<close>

definition LABEL_MAP_API :: "(string \<times> string) list" where
  "LABEL_MAP_API =
     [(''1m'', ''1M''), (''1M'', ''1M''), (''3m'', ''3M''), (''3M'', ''3M''),
      (''6m'', ''6M''), (''6M'', ''6M''), (''1y'', ''1Y''), (''1Y'', ''1Y''),
      (''3y'', ''3Y''), (''3Y'', ''3Y''), (''5y'', ''5Y''), (''5Y'', ''5Y'')]"

definition LABEL_MAP_HTML :: "(string \<times> string) list" where
  "LABEL_MAP_HTML =
     [(''1 month'', ''1M''), (''1m'', ''1M''), (''3 months'', ''3M''), (''3m'', ''3M''),
      (''6 months'', ''6M''), (''6m'', ''6M''), (''1 year'', ''1Y''), (''1y'', ''1Y''),
      (''3 years'', ''3Y''), (''3y'', ''3Y''), (''5 years'', ''5Y''), (''5y'', ''5Y'')]"

definition label_api :: "string \<Rightarrow> string option" where
  "label_api k = map_of LABEL_MAP_API k"

definition label_html :: "string \<Rightarrow> string option" where
  "label_html h = map_of LABEL_MAP_HTML h"

text \<open>
  \<^verbatim>\<open>LABEL_MAP.get(x)\<close> on an object read from the payload: a list or a dict is not
  hashable, anything else that is not a string is no key of the table.
\<close>

definition label_api_obj :: "json \<Rightarrow> py_error + string option" where
  "label_api_obj x =
     (case x of
        JStr s \<Rightarrow> Inr (label_api s)
      | JList xs \<Rightarrow> Inl TypeError
      | JDict d \<Rightarrow> Inl TypeError
      | _ \<Rightarrow> Inr None)"

type_synonym returns = "(string \<times> rat) list"

text \<open>
  \<^verbatim>\<open>returns[mapped] = round(float(v) * 100, 1)\<close> under its \<^verbatim>\<open>try\<close>: a \<^verbatim>\<open>TypeError\<close>
  or \<^verbatim>\<open>ValueError\<close> leaves \<open>returns\<close> as it was.
\<close>

definition store_pct :: "builtins \<Rightarrow> string \<Rightarrow> json \<Rightarrow> returns \<Rightarrow> returns" where
  "store_pct L mapped v returns =
     (case float_of L v of
        Inl e \<Rightarrow> returns
      | Inr x \<Rightarrow> AList.update mapped (py_round L (x * 100) 1) returns)"

text \<open>The loop over \<^verbatim>\<open>perf.items()\<close> when \<open>perf\<close> is a dict, and its body.\<close>

definition dict_step :: "builtins \<Rightarrow> string \<Rightarrow> json \<Rightarrow> returns \<Rightarrow> returns" where
  "dict_step L k v returns =
     (case label_api k of
        None \<Rightarrow> returns
      | Some mapped \<Rightarrow>
          if mapped \<noteq> [] \<and> v \<noteq> JNull then store_pct L mapped v returns else returns)"

fun returns_from_dict :: "builtins \<Rightarrow> (string \<times> json) list \<Rightarrow> returns \<Rightarrow> returns" where
  "returns_from_dict L [] returns = returns"
| "returns_from_dict L ((k, v) # rest) returns =
     returns_from_dict L rest (dict_step L k v returns)"

text \<open>The loop over \<open>perf\<close> when it is a list of records.\<close>

fun returns_from_list :: "builtins \<Rightarrow> json list \<Rightarrow> returns \<Rightarrow> py_error + returns" where
  "returns_from_list L [] returns = Inr returns"
| "returns_from_list L (item # rest) returns =
     (case item of
        JDict d \<Rightarrow>
          (case label_api_obj (py_or (dict_get d ''period'')
                  (py_or (dict_get d ''label'') (JStr ''''))) of
             Inl e \<Rightarrow> Inl e
           | Inr None \<Rightarrow> returns_from_list L rest returns
           | Inr (Some period) \<Rightarrow>
               returns_from_list L rest
                 (if period \<noteq> []
                  then store_pct L period
                         (py_or (dict_get d ''value'') (py_or (dict_get d ''return'') (JNum 0)))
                         returns
                  else returns))
      | _ \<Rightarrow> Inl AttributeError)"

definition RAW_KEYS :: "string list" where
  "RAW_KEYS = [''performance'', ''returns'', ''historicPerformance'', ''totalReturn'']"

fun api_returns :: "builtins \<Rightarrow> (string \<times> json) list \<Rightarrow> string list \<Rightarrow> returns \<Rightarrow> py_error + returns" where
  "api_returns L d [] returns = Inr returns"
| "api_returns L d (raw_key # keys) returns =
     (case dict_get d raw_key of
        JDict perf \<Rightarrow>
          (let r = returns_from_dict L perf returns
           in if r \<noteq> [] then Inr r else api_returns L d keys r)
      | JList perf \<Rightarrow>
          (case returns_from_list L perf returns of
             Inl e \<Rightarrow> Inl e
           | Inr r \<Rightarrow> if r \<noteq> [] then Inr r else api_returns L d keys r)
      | _ \<Rightarrow> api_returns L d keys returns)"

text \<open>
  \<^verbatim>\<open>fetch_etf_returns_yf\<close>; \<open>history\<close> gives, for a Yahoo ticker, the closing prices of
  the five-year history or the exception the request raised.
\<close>

definition yf_returns :: "builtins \<Rightarrow> series \<Rightarrow> returns" where
  "yf_returns L close =
     fold (\<lambda>(label, days) returns.
             case pct_change (\<lambda>x. py_round L x 1) close days of
               None \<Rightarrow> returns
             | Some v \<Rightarrow> AList.update label v returns)
          PERIOD_DAYS []"

definition fetch_etf_returns_yf ::
  "builtins \<Rightarrow> (string \<Rightarrow> py_error + series) \<Rightarrow> string \<Rightarrow> returns" where
  "fetch_etf_returns_yf L history etf =
     (case map_of ETF_YF_TICKERS etf of
        None \<Rightarrow> []
      | Some yf_ticker \<Rightarrow>
          if yf_ticker = [] then []
          else (case history yf_ticker of
                  Inl e \<Rightarrow> []
                | Inr close \<Rightarrow> if close = [] then [] else yf_returns L close))"

text \<open>
  \<^verbatim>\<open>fetch_etf_returns_html\<close>. A table of the page is the list of its header texts and
  the list of its rows, each row the texts of its cells.
\<close>

type_synonym table = "string list \<times> string list list"

definition html_cell :: "builtins \<Rightarrow> string list \<Rightarrow> nat \<times> string \<Rightarrow> returns \<Rightarrow> returns" where
  "html_cell L cells ih returns =
     (case label_html (snd ih) of
        None \<Rightarrow> returns
      | Some mapped \<Rightarrow>
          if mapped \<noteq> [] \<and> fst ih < length cells
          then
            let raw = strip (replace '','' ''.'' (replace ''%'' '''' (cells ! fst ih)))
            in case py_float L raw of
                 None \<Rightarrow> returns
               | Some x \<Rightarrow> AList.update mapped (py_round L x 1) returns
          else returns)"

definition html_table_row :: "builtins \<Rightarrow> string list \<Rightarrow> string list \<Rightarrow> returns \<Rightarrow> returns" where
  "html_table_row L headers cells returns =
     (if cells = [] then returns
      else fold (html_cell L cells) (enumerate 0 headers) returns)"

definition html_table :: "builtins \<Rightarrow> table \<Rightarrow> returns \<Rightarrow> returns" where
  "html_table L tbl returns =
     (let headers = map lower (fst tbl)
      in fold (html_table_row L headers) (snd tbl) returns)"

definition fetch_etf_returns_html ::
  "builtins \<Rightarrow> py_error + table list \<Rightarrow> (string \<Rightarrow> py_error + series) \<Rightarrow> string \<Rightarrow> returns" where
  "fetch_etf_returns_html L response history etf =
     (case response of
        Inl e \<Rightarrow> []
      | Inr tables \<Rightarrow>
          let returns = fold (html_table L) tables []
          in if returns \<noteq> [] then returns else fetch_etf_returns_yf L history etf)"

text \<open>\<^verbatim>\<open>fetch_etf_returns_api\<close>, the head of the chain.\<close>

definition fetch_etf_returns_api ::
  "builtins \<Rightarrow> py_error + json \<Rightarrow> py_error + table list \<Rightarrow> (string \<Rightarrow> py_error + series) \<Rightarrow>
     string \<Rightarrow> py_error + returns" where
  "fetch_etf_returns_api L response html_response history etf =
     (case response of
        Inl e \<Rightarrow> Inr []
      | Inr data \<Rightarrow>
          (case data of
             JDict d \<Rightarrow>
               (case api_returns L d RAW_KEYS [] of
                  Inl e \<Rightarrow> Inl e
                | Inr returns \<Rightarrow>
                    if returns \<noteq> [] then Inr returns
                    else Inr (fetch_etf_returns_html L html_response history etf))
           | _ \<Rightarrow> Inl AttributeError))"

section \<open>Stock returns\<close>

text \<open>
  What \<^verbatim>\<open>yf.download\<close> returned: a frame with two-level columns, from which
  \<^verbatim>\<open>raw["Close"][yf_ticker]\<close> reads a ticker's closing prices (or raises), or a frame with
  plain columns, from which \<^verbatim>\<open>raw["Close"]\<close> reads the one series (or raises). Missing
  values are already dropped from every series.
\<close>

datatype frame =
    MultiFrame "string \<Rightarrow> py_error + series"
  | PlainFrame "py_error + series"

type_synonym period_returns = "(string \<times> rat option) list"

text \<open>The series the loop body reads for one ticker: the three branches of the source.\<close>

definition ticker_series ::
  "frame option \<Rightarrow> (string \<Rightarrow> py_error + series) \<Rightarrow> nat \<Rightarrow> string \<Rightarrow> py_error + series" where
  "ticker_series raw history n_tickers yf_ticker =
     (case raw of
        Some (MultiFrame close) \<Rightarrow> close yf_ticker
      | Some (PlainFrame close) \<Rightarrow> if n_tickers = 1 then close else history yf_ticker
      | None \<Rightarrow> history yf_ticker)"

definition all_missing :: period_returns where
  "all_missing = map (\<lambda>p. (fst p, None)) PERIOD_DAYS"

text \<open>The body of the \<^verbatim>\<open>try\<close> and its handler: the entry recorded for one ticker.\<close>

definition ticker_returns :: "builtins \<Rightarrow> py_error + series \<Rightarrow> period_returns" where
  "ticker_returns L outcome =
     (case outcome of
        Inl e \<Rightarrow> all_missing
      | Inr series \<Rightarrow>
          if series = [] then all_missing
          else fold (\<lambda>(label, days) rets.
                       AList.update label (pct_change (\<lambda>x. py_round L x 1) series days) rets)
                 PERIOD_DAYS [])"

text \<open>
  \<^verbatim>\<open>fetch_stock_returns\<close>. \<open>download\<close> is the frame of the batch request, \<open>None\<close> when
  the request raised; \<open>history\<close> answers the request for one ticker.
\<close>

definition fetch_stock_returns ::
  "builtins \<Rightarrow> frame option \<Rightarrow> (string \<Rightarrow> py_error + series) \<Rightarrow> string list \<Rightarrow>
     (string \<times> period_returns) list" where
  "fetch_stock_returns L download history tickers =
     (let yf_tickers = map (replace ''BRK_B'' ''BRK-B'') tickers
      in fold (\<lambda>(t, yf_ticker) results.
                 AList.update t
                   (ticker_returns L (ticker_series download history (length yf_tickers) yf_ticker))
                   results)
           (zip tickers yf_tickers) [])"

section \<open>Serializers\<close>

text \<open>
  A dict of the snapshot is the list of its items in insertion order. \<^verbatim>\<open>d.get(k, [])\<close>
  and \<^verbatim>\<open>d.get(k)\<close> read it as a mapping.
\<close>

definition join_lines :: "string list \<Rightarrow> string" where
  "join_lines ls = (case ls of [] \<Rightarrow> [] | l # rest \<Rightarrow> l @ concat (map (\<lambda>x. CHR 0x0A # x) rest))"

text \<open>\<^verbatim>\<open>s.replace('"', '\\"')\<close>: a backslash is put before every double quote.\<close>

definition escape_quotes :: "string \<Rightarrow> string" where
  "escape_quotes s = replace [CHR 0x22] [CHR 0x5C, CHR 0x22] s"

definition holding_line :: "builtins \<Rightarrow> holding \<Rightarrow> string" where
  "holding_line L h =
     (let t = escape_quotes (ticker h);
          n = escape_quotes (name h);
          w = weight h
      in ''    { ticker:'' @ [CHR 0x22] @ t @ [CHR 0x22] @ '', name:'' @ [CHR 0x22] @ n @ [CHR 0x22]
         @ '', weight:'' @ py_format L ''5.2f'' w @ '' },'')"

definition etf_holdings_lines :: "builtins \<Rightarrow> (string \<times> holding list) list \<Rightarrow> string \<Rightarrow> string list" where
  "etf_holdings_lines L holdings_by_etf etf =
     (let holdings = (case map_of holdings_by_etf etf of None \<Rightarrow> [] | Some hs \<Rightarrow> hs)
      in [''  '' @ etf @ '': [''] @ map (holding_line L) holdings @ [''  ],''])"

definition js_holdings :: "builtins \<Rightarrow> (string \<times> holding list) list \<Rightarrow> string" where
  "js_holdings L holdings_by_etf =
     join_lines
       ([''const RAW_HOLDINGS = {''] @ concat (map (etf_holdings_lines L holdings_by_etf) ETFS)
        @ [''};''])"

text \<open>\<^verbatim>\<open>", ".join(parts)\<close>.\<close>

definition join_comma :: "string list \<Rightarrow> string" where
  "join_comma ps = (case ps of [] \<Rightarrow> [] | p # rest \<Rightarrow> p @ concat (map (\<lambda>x. '', '' @ x) rest))"

definition etf_part :: "builtins \<Rightarrow> (string \<Rightarrow> rat option) \<Rightarrow> string \<Rightarrow> string" where
  "etf_part L rets p =
     (case rets p of
        None \<Rightarrow> [CHR 0x22] @ p @ [CHR 0x22] @ '':  null ''
      | Some v \<Rightarrow> [CHR 0x22] @ p @ [CHR 0x22] @ '': '' @ py_format L ''5.1f'' v)"

definition etf_line :: "builtins \<Rightarrow> (string \<times> returns) list \<Rightarrow> string \<Rightarrow> string" where
  "etf_line L returns_by_etf etf =
     (let rets = (case map_of returns_by_etf etf of None \<Rightarrow> [] | Some r \<Rightarrow> r)
      in ''  '' @ etf @ '': { '' @ join_comma (map (etf_part L (map_of rets)) PERIODS) @ '' },'')"

definition js_etf_returns :: "builtins \<Rightarrow> (string \<times> returns) list \<Rightarrow> string" where
  "js_etf_returns L returns_by_etf =
     join_lines ([''const ETF_RETURNS = {''] @ map (etf_line L returns_by_etf) ETFS @ [''};''])"

text \<open>
  In the stock returns a period may be present with the value \<^verbatim>\<open>None\<close>;
  \<^verbatim>\<open>rets.get(p)\<close> is \<^verbatim>\<open>None\<close> for it as for an absent one.
\<close>

definition rets_get :: "period_returns \<Rightarrow> string \<Rightarrow> rat option" where
  "rets_get rets p = (case map_of rets p of None \<Rightarrow> None | Some v \<Rightarrow> v)"

definition stock_part :: "builtins \<Rightarrow> period_returns \<Rightarrow> string \<Rightarrow> string" where
  "stock_part L rets p =
     (case rets_get rets p of
        None \<Rightarrow> [CHR 0x22] @ p @ [CHR 0x22] @ '':   null''
      | Some v \<Rightarrow> [CHR 0x22] @ p @ [CHR 0x22] @ '': '' @ py_format L ''7.1f'' v)"

definition js_key :: "string \<Rightarrow> string" where
  "js_key t =
     (if CHR ''.'' \<in> set t \<or> \<not> isalnum (replace ''_'' '''' t)
      then [CHR 0x22] @ t @ [CHR 0x22] else t)"

definition stock_line :: "builtins \<Rightarrow> string \<times> period_returns \<Rightarrow> string" where
  "stock_line L item =
     ''  '' @ js_key (fst item) @ '':  { '' @ join_comma (map (stock_part L (snd item)) PERIODS) @ '' },''"

definition js_holding_returns :: "builtins \<Rightarrow> (string \<times> period_returns) list \<Rightarrow> string" where
  "js_holding_returns L returns_by_ticker =
     join_lines ([''const HOLDING_RETURNS = {''] @ map (stock_line L) returns_by_ticker @ [''};''])"

section \<open>Regular-expression substitution\<close>

text \<open>
  \<^verbatim>\<open>re.sub(pattern, repl, string)\<close> for the five patterns of the script. None of them has
  a group and none matches the empty string. A pattern is given by its matcher: for a
  text, the length of the match that starts at its first character, if there is one.

  The replacement is a template (CPython 3.12, \<^verbatim>\<open>re._parser.parse_template\<close>): it is
  parsed once, before any match is looked for, and a malformed template raises
  \<^verbatim>\<open>re.error\<close> (\<open>ReError\<close>, which here also stands for the \<^verbatim>\<open>IndexError\<close> of an
  unknown group name). Strings are UTF-8 byte strings, so an octal escape above 127 gives
  the two bytes of its code point.
\<close>

datatype titem = Lit string | WholeMatch

definition is_digit :: "char \<Rightarrow> bool" where
  "is_digit c = (let n = (of_char c :: nat) in 48 \<le> n \<and> n \<le> 57)"







text \<open>
  The text up to and including the first occurrence of a delimiter, and the text after
  it.
\<close>

fun split_close :: "string \<Rightarrow> string \<Rightarrow> (string \<times> string) option" where
  "split_close c [] = (if c = [] then Some ([], []) else None)"
| "split_close c (x # xs) =
     (if prefix c (x # xs) then Some (c, drop (length c) (x # xs))
      else (case split_close c xs of None \<Rightarrow> None | Some (a, r) \<Rightarrow> Some (x # a, r)))"




definition expand :: "titem list \<Rightarrow> string \<Rightarrow> string" where
  "expand items matched = concat (map (\<lambda>i. case i of Lit s \<Rightarrow> s | WholeMatch \<Rightarrow> matched) items)"

type_synonym matcher = "string \<Rightarrow> nat option"



text \<open>
  The pattern \<^verbatim>\<open>opening.*?\};\<close> under \<^verbatim>\<open>re.DOTALL\<close>: the opening text, then the
  shortest text that ends with the closing delimiter.
\<close>

definition closing :: string where
  "closing = ''};''"

definition block_match :: "string \<Rightarrow> matcher" where
  "block_match opening s =
     (if prefix opening s
      then (case split_close closing (drop (length opening) s) of
              None \<Rightarrow> None
            | Some (body, rest) \<Rightarrow> Some (length opening + length body))
      else None)"















section \<open>The patcher\<close>

definition RAW_HOLDINGS_OPEN :: string where
  "RAW_HOLDINGS_OPEN = ''const RAW_HOLDINGS = {''"









section \<open>The orchestrator\<close>

text \<open>
  \<^verbatim>\<open>stock_rets["BRK_B"] = stock_rets.pop("BRK-B")\<close>, guarded by the membership test of
  \<^verbatim>\<open>main\<close>, and \<^verbatim>\<open>d or None\<close>.
\<close>

definition rename_brk :: "(string \<times> period_returns) list \<Rightarrow> (string \<times> period_returns) list" where
  "rename_brk stock_rets =
     (case map_of stock_rets ''BRK-B'' of
        None \<Rightarrow> stock_rets
      | Some v \<Rightarrow> AList.update ''BRK_B'' v (AList.delete ''BRK-B'' stock_rets))"

definition or_none :: "'a list \<Rightarrow> 'a list option" where
  "or_none d = (if d = [] then None else Some d)"

section \<open>A reading of the built-ins, for evaluating examples\<close>

text \<open>
  The examples below are evaluated with these functions for the built-ins: rounding to
  the nearest multiple of a power of ten with ties to even, fixed-point formatting padded
  on the left, \<^verbatim>\<open>float\<close> on plain decimal numerals, and \<^verbatim>\<open>str\<close> on values whose
  numbers are integers and whose strings need no escape. On exact rationals they give
  what Python gives on the floats nearest to them, away from ties. Outside ASCII the
  examples take the Latin letters from U+00C0 to U+024F for alphanumeric, and no
  character for a digit.
\<close>

definition round_half_even :: "rat \<Rightarrow> int" where
  "round_half_even x =
     (let f = \<lfloor>x\<rfloor>; d = x - of_int f
      in if d < 1 / 2 then f else if 1 / 2 < d then f + 1 else if even f then f else f + 1)"

definition round_to :: "rat \<Rightarrow> nat \<Rightarrow> rat" where
  "round_to x n = of_int (round_half_even (x * 10 ^ n)) / 10 ^ n"

definition digit_char :: "nat \<Rightarrow> char" where
  "digit_char d = ''0123456789'' ! d"

function digits_of :: "nat \<Rightarrow> string" where
  "digits_of n = (if n < 10 then [digit_char n] else digits_of (n div 10) @ [digit_char (n mod 10)])"
  by pat_completeness auto
termination
  by (relation "measure id") auto

definition pad_left :: "nat \<Rightarrow> string \<Rightarrow> string" where
  "pad_left w s = replicate (w - length s) (CHR '' '') @ s"

definition format_fixed :: "nat \<Rightarrow> nat \<Rightarrow> rat \<Rightarrow> string" where
  "format_fixed w p x =
     (let scaled = nat \<bar>round_half_even (x * 10 ^ p)\<bar>;
          whole = digits_of (scaled div 10 ^ p);
          frac = digits_of (scaled mod 10 ^ p);
          frac' = replicate (p - length frac) (CHR ''0'') @ frac
      in pad_left w ((if x < 0 then ''-'' else '''') @ whole @ (if p = 0 then '''' else ''.'' @ frac')))"

definition format_spec :: "string \<Rightarrow> rat \<Rightarrow> string" where
  "format_spec spec x =
     (if spec = ''5.2f'' then format_fixed 5 2 x
      else if spec = ''5.1f'' then format_fixed 5 1 x
      else if spec = ''7.1f'' then format_fixed 7 1 x
      else [])"

definition digits_value :: "string \<Rightarrow> nat" where
  "digits_value ds = foldl (\<lambda>acc d. 10 * acc + (of_char d - 48)) 0 ds"

definition float_decimal :: "string \<Rightarrow> rat option" where
  "float_decimal s =
     (let t = strip s;
          neg = prefix ''-'' t;
          u = (if prefix ''-'' t \<or> prefix ''+'' t then drop 1 t else t);
          whole = takeWhile is_digit u;
          r = dropWhile is_digit u;
          frac = (if prefix ''.'' r then drop 1 r else r)
      in if list_all is_digit frac \<and> (whole \<noteq> [] \<or> frac \<noteq> []) \<and> (r = [] \<or> prefix ''.'' r)
         then
           let v = of_nat (digits_value whole) + of_nat (digits_value frac) / 10 ^ length frac
           in Some (if neg then - v else v)
         else None)"

fun str_json :: "json \<Rightarrow> string" where
  "str_json JNull = ''None''"
| "str_json (JBool b) = (if b then ''True'' else ''False'')"
| "str_json (JNum r) = (if r < 0 then ''-'' else '''') @ digits_of (nat \<bar>\<lfloor>r\<rfloor>\<bar>)"
| "str_json (JStr s) = [CHR 0x27] @ s @ [CHR 0x27]"
| "str_json (JList xs) = ''['' @ join_comma (map str_json xs) @ '']''"
| "str_json (JDict d) =
     ''{'' @ join_comma (map (\<lambda>kv. [CHR 0x27] @ fst kv @ [CHR 0x27] @ '': '' @ str_json (snd kv)) d) @ ''}''"

definition latin_letter :: "string \<Rightarrow> bool" where
  "latin_letter ch =
     (case ch of
        [a, b] \<Rightarrow>
          (let m = (of_char a :: nat); n = (of_char b :: nat)
           in 195 \<le> m \<and> m \<le> 201 \<and> 128 \<le> n \<and> n < 192 \<and> (m = 201 \<longrightarrow> n < 144) \<and>
              \<not> (m = 195 \<and> (n = 151 \<or> n = 183)))
      | _ \<Rightarrow> False)"

definition python :: builtins where
  "python =
     \<lparr>py_round = round_to, py_float = float_decimal, py_str = str_json, py_format = format_spec,
      uni_word = latin_letter, uni_digit = (\<lambda>ch. False)\<rparr>"

section \<open>Example inputs\<close>


definition nvda :: holding where
  "nvda = \<lparr>ticker = ''NVDA'', name = ''NVIDIA Corp'', weight = 751 / 100\<rparr>"

definition example_history :: "string \<Rightarrow> py_error + series" where
  "example_history yf_ticker =
     (if yf_ticker = ''AAPL'' then Inr [(-400, 100), (-200, 150), (0, 200)] else Inl RequestFailed)"

section \<open>Notions the properties are stated with\<close>

text \<open>
  Equality of two dicts as Python's \<^verbatim>\<open>==\<close> decides it, whatever the order of insertion:
  for a dict of plain values, and for a dict whose values are dicts.
\<close>

definition dict_eq :: "('k \<times> 'v) list \<Rightarrow> ('k \<times> 'v) list \<Rightarrow> bool" where
  "dict_eq d1 d2 = (map_of d1 = map_of d2)"

definition dict_eq2 :: "('k \<times> ('p \<times> 'v) list) list \<Rightarrow> ('k \<times> ('p \<times> 'v) list) list \<Rightarrow> bool" where
  "dict_eq2 d1 d2 = (\<forall>k. rel_option dict_eq (map_of d1 k) (map_of d2 k))"

text \<open>
  The same dicts in the same order of insertion: the keys agree position by position
  and the values are equal dicts.
\<close>

definition same_order :: "('k \<times> ('p \<times> 'v) list) list \<Rightarrow> ('k \<times> ('p \<times> 'v) list) list \<Rightarrow> bool" where
  "same_order d1 d2 = list_all2 (\<lambda>a b. fst a = fst b \<and> dict_eq (snd a) (snd b)) d1 d2"

text \<open>
  How a JavaScript reader takes a double-quoted string literal: from the text after the
  opening quote, the value of the literal and the text after its closing quote. A
  backslash takes the next character with it; the reader is given for the escapes
  \<^verbatim>\<open>\"\<close> and \<^verbatim>\<open>\\\<close>. A line break ends the literal in error, as does the end of the
  text.
\<close>

fun js_string :: "string \<Rightarrow> (string \<times> string) option" where
  "js_string [] = None"
| "js_string [c] = (if c = CHR 0x22 then Some ([], []) else None)"
| "js_string (c # e # rest) =
     (if c = CHR 0x22 then Some ([], e # rest)
      else if c = CHR 0x5C then
        (if e = CHR 0x22 \<or> e = CHR 0x5C
         then (case js_string rest of None \<Rightarrow> None | Some (v, r) \<Rightarrow> Some (e # v, r))
         else None)
      else if c = CHR 0x0A \<or> c = CHR 0x0D then None
      else (case js_string (e # rest) of None \<Rightarrow> None | Some (v, r) \<Rightarrow> Some (c # v, r)))"












section \<open>Notions of the proofs about the scan\<close>


text \<open>
  The substitution of a block \<open>B\<close> for the pattern that opens with \<open>m\<close>: the template
  expands to \<open>B\<close> whatever was matched, the pattern matches \<open>B\<close> from end to end, and the
  opening text shares no character with the closing delimiter.
\<close>

definition block_sub :: "string \<Rightarrow> string \<Rightarrow> titem list \<Rightarrow> bool" where
  "block_sub m B I =
     ((\<forall>mt. expand I mt = B) \<and> block_match m B = Some (length B) \<and>
      set m \<inter> set closing = {} \<and> m \<noteq> [])"














section \<open>Percent change\<close>

lemma arg_min_list_sorted_hd:
  "sorted (map f xs) \<Longrightarrow> xs \<noteq> [] \<Longrightarrow> arg_min_list f xs = hd xs"
proof (induction f xs rule: arg_min_list.induct)
  case (1 f x)
  show ?case by simp
next
  case (2 f x y zs)
  have "arg_min_list f (y # zs) \<in> set (y # zs)"
    by (rule arg_min_list_in) simp
  with "2.prems" have "f x \<le> f (arg_min_list f (y # zs))"
    by auto
  then show ?case by (simp add: Let_def)
next
  case (3 f)
  then show ?case by simp
qed

lemma sorted_on_or_after: "ascending s \<Longrightarrow> sorted (map fst (on_or_after c s))"
  unfolding ascending_def on_or_after_def by (rule sorted_filter)

lemma start_price_spec_hd:
  assumes "ascending s" and "on_or_after (cutoff_of s days) s \<noteq> []"
  shows "start_price_spec s days = snd (hd (on_or_after (cutoff_of s days) s))"
  using arg_min_list_sorted_hd [OF sorted_on_or_after [OF assms(1)] assms(2)]
  by (simp add: start_price_spec_def)

lemma on_or_after_empty_iff: "on_or_after c s = [] \<longleftrightarrow> (\<forall>ob\<in>set s. fst ob < c)"
  by (auto simp: on_or_after_def filter_empty_conv not_le)

lemma last_on_or_after:
  assumes "s \<noteq> []" and "0 \<le> days"
  shows "last s \<in> set (on_or_after (cutoff_of s days) s)"
  using assms by (simp add: on_or_after_def cutoff_of_def)

lemma pct_change_unfold:
  "pct_change rnd s days =
     (if s = [] \<or> on_or_after (cutoff_of s days) s = [] then None
      else if snd (hd (on_or_after (cutoff_of s days) s)) = 0 then None
      else Some (rnd ((snd (last s) / snd (hd (on_or_after (cutoff_of s days) s)) - 1) * 100)))"
  by (simp add: pct_change_def on_or_after_def cutoff_of_def Let_def)

text \<open>
  C1. On a series in ascending date order, \<open>pct_change\<close> returns \<open>None\<close> exactly when
  the series is empty, or no observation is dated on or after the cutoff (the last date
  minus the window), or the start price (the value of the earliest observation dated on
  or after the cutoff) is zero; in every other case it returns the rounded value of
  \<open>(end / start - 1) * 100\<close>, where \<open>end\<close> is the value of the last observation.
\<close>

theorem pct_change_missing_iff:
  assumes "ascending s"
  shows "pct_change rnd s days =
     (if s = [] \<or> \<not> (\<exists>ob\<in>set s. cutoff_of s days \<le> fst ob) \<or> start_price_spec s days = 0
      then None
      else Some (rnd ((snd (last s) / start_price_spec s days - 1) * 100)))"
proof (cases "s = [] \<or> on_or_after (cutoff_of s days) s = []")
  case True
  then show ?thesis
    by (auto simp: pct_change_unfold on_or_after_empty_iff not_le)
next
  case False
  then have ne: "on_or_after (cutoff_of s days) s \<noteq> []" by simp
  have sp: "start_price_spec s days = snd (hd (on_or_after (cutoff_of s days) s))"
    by (rule start_price_spec_hd [OF assms ne])
  from ne have ex: "\<exists>ob\<in>set s. cutoff_of s days \<le> fst ob"
    by (auto simp: on_or_after_empty_iff not_less)
  from False ex show ?thesis
    by (simp add: pct_change_unfold sp)
qed

theorem pct_change_missing_iff_witness:
  "ascending [(-400, 100), (-200, 150), (0, 200)] \<and>
   pct_change (\<lambda>x. x) [(-400, 100), (-200, 150), (0, 200)] 365 = Some (100 / 3) \<and>
   start_price_spec [(-400, 100), (-200, 150), (0, 200)] 365 = 150"
proof -
  have a: "ascending [(-400, 100), (-200, 150), (0, 200)]"
    by (simp add: ascending_def)
  have sp: "start_price_spec [(-400, 100), (-200, 150), (0, 200)] 365 = 150"
    by (simp add: start_price_spec_def on_or_after_def cutoff_of_def)
  have ex: "\<exists>ob\<in>set [(-400, 100), (-200, 150), (0, 200 :: rat)].
      cutoff_of [(-400, 100), (-200, 150), (0, 200)] 365 \<le> fst ob"
    by (simp add: cutoff_of_def)
  show ?thesis
    using pct_change_missing_iff [OF a, of "\<lambda>x. x" 365] a sp ex by simp
qed

text \<open>
  C10. On a non-empty series in ascending date order and with a window of at least zero
  days, the last observation is itself dated on or after the cutoff, so the window is
  never empty, and \<open>pct_change\<close> returns \<open>None\<close> exactly when the start price is zero.
\<close>

theorem pct_change_window_nonempty:
  assumes "s \<noteq> []" and "ascending s" and "0 \<le> days"
  shows "last s \<in> set [ob \<leftarrow> s. fst (last s) - days \<le> fst ob] \<and>
         (pct_change rnd s days = None \<longleftrightarrow> start_price_spec s days = 0)"
proof -
  have mem: "last s \<in> set (on_or_after (cutoff_of s days) s)"
    by (rule last_on_or_after [OF assms(1) assms(3)])
  then have ne: "on_or_after (cutoff_of s days) s \<noteq> []" by auto
  have sp: "start_price_spec s days = snd (hd (on_or_after (cutoff_of s days) s))"
    by (rule start_price_spec_hd [OF assms(2) ne])
  from mem have "last s \<in> set [ob \<leftarrow> s. fst (last s) - days \<le> fst ob]"
    by (simp add: on_or_after_def cutoff_of_def)
  moreover from assms(1) ne have "pct_change rnd s days = None \<longleftrightarrow> start_price_spec s days = 0"
    by (simp add: pct_change_unfold sp)
  ultimately show ?thesis by simp
qed

theorem pct_change_window_nonempty_witness:
  "[(0 :: int, 0 :: rat), (10, 5)] \<noteq> [] \<and> ascending [(0, 0), (10, 5)] \<and> (0::int) \<le> 31 \<and>
   pct_change (\<lambda>x. x) [(0, 0), (10, 5)] 31 = None \<and> start_price_spec [(0, 0), (10, 5)] 31 = 0"
proof -
  have a: "ascending [(0, 0), (10, 5)]" by (simp add: ascending_def)
  have n: "[(0 :: int, 0 :: rat), (10, 5)] \<noteq> []" by simp
  have d: "(0::int) \<le> 31" by simp
  have sp: "start_price_spec [(0, 0), (10, 5)] 31 = 0"
    by (simp add: start_price_spec_def on_or_after_def cutoff_of_def)
  show ?thesis
    using pct_change_window_nonempty [OF n a d, of "\<lambda>x. x"] a sp by simp
qed

section \<open>Label normalization\<close>

lemma label_api_canonical: "label_api k = Some p \<Longrightarrow> p \<in> set PERIODS"
proof -
  assume "label_api k = Some p"
  then have "(k, p) \<in> set LABEL_MAP_API"
    unfolding label_api_def by (rule map_of_SomeD)
  then show ?thesis
    by (auto simp: LABEL_MAP_API_def PERIODS_def)
qed

lemma label_html_canonical: "label_html h = Some p \<Longrightarrow> p \<in> set PERIODS"
proof -
  assume "label_html h = Some p"
  then have "(h, p) \<in> set LABEL_MAP_HTML"
    unfolding label_html_def by (rule map_of_SomeD)
  then show ?thesis
    by (auto simp: LABEL_MAP_HTML_def PERIODS_def)
qed

lemma store_pct_keys: "fst ` set (store_pct L p v r) \<subseteq> insert p (fst ` set r)"
  by (auto simp: store_pct_def AList.dom_update split: sum.splits)

lemma dict_step_keys: "fst ` set (dict_step L k v r) \<subseteq> fst ` set r \<union> set PERIODS"
proof (cases "label_api k")
  case None
  then show ?thesis by (simp add: dict_step_def)
next
  case (Some p)
  then have "p \<in> set PERIODS" by (rule label_api_canonical)
  with store_pct_keys [of L p v r]
  have "fst ` set (store_pct L p v r) \<subseteq> fst ` set r \<union> set PERIODS"
    by blast
  with Some show ?thesis by (simp add: dict_step_def)
qed

lemma returns_from_dict_keys:
  "fst ` set (returns_from_dict L perf r) \<subseteq> fst ` set r \<union> set PERIODS"
proof (induction perf arbitrary: r)
  case Nil
  show ?case by simp
next
  case (Cons kv perf)
  have eq: "returns_from_dict L (kv # perf) r =
      returns_from_dict L perf (dict_step L (fst kv) (snd kv) r)"
    by (cases kv) simp
  from Cons.IH [of "dict_step L (fst kv) (snd kv) r"] dict_step_keys [of L "fst kv" "snd kv" r]
  have "fst ` set (returns_from_dict L perf (dict_step L (fst kv) (snd kv) r))
      \<subseteq> fst ` set r \<union> set PERIODS"
    by blast
  with eq show ?case by simp
qed

text \<open>
  C8. Each of the two label tables is a function from raw labels to the six canonical
  periods: a label it knows maps to one of \<open>1M, 3M, 6M, 1Y, 3Y, 5Y\<close>, and a label it does
  not know maps to nothing, in which case the loop body that read it leaves the returns
  as they were (no exception, no entry). The keys of the returns collected from a
  payload are canonical periods. The API table knows \<open>1y\<close> and \<open>1Y\<close>; the page table
  is applied to the lower-cased header and knows \<open>1 year\<close>, \<open>1y\<close> and so \<open>1Y\<close>.
\<close>

theorem label_normalizer_total:
  "(case label_api k of
      None \<Rightarrow> dict_step L k v r = r
    | Some p \<Rightarrow> p \<in> set PERIODS) \<and>
   (case label_html (lower h) of
      None \<Rightarrow> html_cell L cells (i, lower h) r = r
    | Some p \<Rightarrow> p \<in> set PERIODS) \<and>
   fst ` set (returns_from_dict L perf []) \<subseteq> set PERIODS \<and>
   label_api ''1y'' = Some ''1Y'' \<and> label_api ''1Y'' = Some ''1Y'' \<and>
   label_html (lower ''1 Year'') = Some ''1Y'' \<and> label_html (lower ''1Y'') = Some ''1Y'' \<and>
   label_api ''YTD'' = None \<and> label_html (lower ''YTD'') = None"
proof (intro conjI)
  show "case label_api k of None \<Rightarrow> dict_step L k v r = r | Some p \<Rightarrow> p \<in> set PERIODS"
    by (auto simp: dict_step_def split: option.splits dest: label_api_canonical)
  show "case label_html (lower h) of
      None \<Rightarrow> html_cell L cells (i, lower h) r = r
    | Some p \<Rightarrow> p \<in> set PERIODS"
    by (auto simp: html_cell_def split: option.splits dest: label_html_canonical)
  show "fst ` set (returns_from_dict L perf []) \<subseteq> set PERIODS"
    using returns_from_dict_keys [of L perf "[]"] by simp
  show "label_api ''1y'' = Some ''1Y''" "label_api ''1Y'' = Some ''1Y''" "label_api ''YTD'' = None"
    by (simp_all add: label_api_def LABEL_MAP_API_def)
  show "label_html (lower ''1 Year'') = Some ''1Y''" "label_html (lower ''1Y'') = Some ''1Y''"
    "label_html (lower ''YTD'') = None"
    by (simp_all add: label_html_def LABEL_MAP_HTML_def lower_def lower_char_def)
qed

section \<open>Exceptions that leave the fetchers\<close>

text \<open>
  C2. The claim is that no fetcher raises to its caller. The loop bodies that read the
  items of an API payload run outside any \<^verbatim>\<open>try\<close>: with the default \<open>top_n = 15\<close>,
  a holdings list whose item is a string raises \<^verbatim>\<open>AttributeError\<close> out of
  \<^verbatim>\<open>fetch_holdings_api\<close>, an item whose weight is a list raises \<^verbatim>\<open>TypeError\<close>, an item
  whose weight is the string \<open>n/a\<close> raises \<^verbatim>\<open>ValueError\<close>, and a performance list whose
  item is a string raises \<^verbatim>\<open>AttributeError\<close> out of \<^verbatim>\<open>fetch_etf_returns_api\<close>.
\<close>

theorem fetch_raises_on_malformed_items:
  "fetch_holdings_api L (Inr (JDict [(''topHoldings'', JList [JStr ''NVDA''])])) page 15
     = Inl AttributeError \<and>
   fetch_holdings_api L
     (Inr (JDict [(''topHoldings'',
        JList [JDict [(''ticker'', JStr ''NVDA''), (''name'', JStr ''NVIDIA''),
                      (''weight'', JList [JNum 7])]])]))
     page 15 = Inl TypeError \<and>
   fetch_holdings_api python
     (Inr (JDict [(''topHoldings'',
        JList [JDict [(''ticker'', JStr ''NVDA''), (''name'', JStr ''NVIDIA''),
                      (''weight'', JStr ''n/a'')]])]))
     page 15 = Inl ValueError \<and>
   fetch_etf_returns_api L (Inr (JDict [(''performance'', JList [JStr ''1y''])])) tables history etf
     = Inl AttributeError"
proof (intro conjI)
  show "fetch_holdings_api L (Inr (JDict [(''topHoldings'', JList [JStr ''NVDA''])])) page 15
     = Inl AttributeError"
    by (simp add: fetch_holdings_api_def find_raw_def dict_get_def py_or_def slice_items_def
        py_take_def api_item_def)
  show "fetch_holdings_api L
     (Inr (JDict [(''topHoldings'',
        JList [JDict [(''ticker'', JStr ''NVDA''), (''name'', JStr ''NVIDIA''),
                      (''weight'', JList [JNum 7])]])]))
     page 15 = Inl TypeError"
    by (simp add: fetch_holdings_api_def find_raw_def dict_get_def py_or_def slice_items_def
        py_take_def api_item_def obj_strip_def float_of_def)
  show "fetch_holdings_api python
     (Inr (JDict [(''topHoldings'',
        JList [JDict [(''ticker'', JStr ''NVDA''), (''name'', JStr ''NVIDIA''),
                      (''weight'', JStr ''n/a'')]])]))
     page 15 = Inl ValueError"
    by (simp add: fetch_holdings_api_def find_raw_def dict_get_def py_or_def slice_items_def
        py_take_def api_item_def obj_strip_def float_of_def python_def float_decimal_def
        strip_def py_isspace_def is_digit_def)
  show "fetch_etf_returns_api L (Inr (JDict [(''performance'', JList [JStr ''1y''])]))
     tables history etf = Inl AttributeError"
    by (simp add: fetch_etf_returns_api_def RAW_KEYS_def dict_get_def)
qed

section \<open>The holdings chain\<close>






section \<open>Stock returns, ticker by ticker\<close>




lemma fold_update_zip_order:
  "distinct ts \<Longrightarrow> set ts \<inter> fst ` set r0 = {} \<Longrightarrow>
   map fst (fold (\<lambda>(t, y) results. AList.update t (f y) results) (zip ts (map g ts)) r0) =
     map fst r0 @ ts"
proof (induction ts arbitrary: r0)
  case Nil
  show ?case by simp
next
  case (Cons a ts)
  from Cons.prems have a: "a \<notin> set (map fst r0)" by auto
  from Cons.prems have "set ts \<inter> fst ` set (AList.update a (f (g a)) r0) = {}"
    by (auto simp: dom_update)
  with Cons.prems Cons.IH [of "AList.update a (f (g a)) r0"] a show ?case
    by (simp add: update_keys)
qed





section \<open>Order of the serialized entries\<close>

lemma js_holdings_cong:
  assumes "dict_eq h1 h2"
  shows "js_holdings L h1 = js_holdings L h2"
proof -
  from assms have "etf_holdings_lines L h1 = etf_holdings_lines L h2"
    by (simp add: fun_eq_iff etf_holdings_lines_def dict_eq_def)
  then show ?thesis by (simp only: js_holdings_def)
qed

lemma dict_eq2_lookup:
  assumes "dict_eq2 e1 e2"
  shows "map_of (case map_of e1 k of None \<Rightarrow> [] | Some r \<Rightarrow> r) =
         map_of (case map_of e2 k of None \<Rightarrow> [] | Some r \<Rightarrow> r)"
proof -
  from assms have "rel_option dict_eq (map_of e1 k) (map_of e2 k)"
    by (simp add: dict_eq2_def)
  then show ?thesis
    by (cases "map_of e1 k"; cases "map_of e2 k") (simp_all add: dict_eq_def)
qed

lemma js_etf_returns_cong:
  assumes "dict_eq2 e1 e2"
  shows "js_etf_returns L e1 = js_etf_returns L e2"
proof -
  have "etf_line L e1 = etf_line L e2"
    by (simp add: fun_eq_iff etf_line_def dict_eq2_lookup [OF assms])
  then show ?thesis by (simp only: js_etf_returns_def)
qed

lemma stock_line_cong:
  assumes "fst a = fst b" and "dict_eq (snd a) (snd b)"
  shows "stock_line L a = stock_line L b"
proof -
  from assms(2) have "stock_part L (snd a) = stock_part L (snd b)"
    by (simp add: fun_eq_iff stock_part_def rets_get_def dict_eq_def)
  with assms(1) show ?thesis by (simp add: stock_line_def)
qed

lemma js_holding_returns_cong:
  assumes "same_order s1 s2"
  shows "js_holding_returns L s1 = js_holding_returns L s2"
proof -
  from assms have "map (stock_line L) s1 = map (stock_line L) s2"
    unfolding same_order_def
    by (induction rule: list_all2_induct) (simp_all add: stock_line_cong)
  then show ?thesis by (simp only: js_holding_returns_def)
qed

lemma fetch_stock_returns_order:
  "distinct tickers \<Longrightarrow> map fst (fetch_stock_returns L download history tickers) = tickers"
  by (simp add: fetch_stock_returns_def fold_update_zip_order)

text \<open>
  C6, as claimed, fails for the stock-returns block: \<^verbatim>\<open>js_holding_returns\<close> iterates the
  dict it is given, so two snapshots that are equal as mappings and were filled in a
  different order give different blocks.
\<close>

theorem stock_serializer_insertion_order:
  "dict_eq2 [(''AAPL'', [(''1M'', Some 1)]), (''MSFT'', [(''1M'', None)])]
            [(''MSFT'', [(''1M'', None)]), (''AAPL'', [(''1M'', Some (1::rat))])] \<and>
   js_holding_returns python [(''AAPL'', [(''1M'', Some 1)]), (''MSFT'', [(''1M'', None)])] \<noteq>
   js_holding_returns python [(''MSFT'', [(''1M'', None)]), (''AAPL'', [(''1M'', Some 1)])]"
proof
  show "dict_eq2 [(''AAPL'', [(''1M'', Some 1)]), (''MSFT'', [(''1M'', None)])]
            [(''MSFT'', [(''1M'', None)]), (''AAPL'', [(''1M'', Some (1::rat))])]"
    by (simp add: dict_eq2_def dict_eq_def)
  show "js_holding_returns python [(''AAPL'', [(''1M'', Some 1)]), (''MSFT'', [(''1M'', None)])] \<noteq>
   js_holding_returns python [(''MSFT'', [(''1M'', None)]), (''AAPL'', [(''1M'', Some 1)])]"
    by (simp add: js_holding_returns_def stock_line_def join_lines_def js_key_def isalnum_def
        isalnum_char_def)
qed

text \<open>
  C6, amended. The holdings block and the ETF-returns block are written by iterating the
  fixed list of the six instruments and, inside an entry, the fixed list of the six
  periods: two snapshots that are equal as mappings give the same block, whatever their
  order of insertion. The stock-returns block is written in the order of insertion of
  the snapshot: two snapshots with the same tickers in the same order and equal entries
  give the same block (the order of the periods inside an entry does not matter). The
  snapshot that \<^verbatim>\<open>fetch_stock_returns\<close> builds lists the tickers in the order they were
  requested in.
\<close>

theorem serializers_order:
  "(dict_eq h1 h2 \<longrightarrow> js_holdings L h1 = js_holdings L h2) \<and>
   (dict_eq2 e1 e2 \<longrightarrow> js_etf_returns L e1 = js_etf_returns L e2) \<and>
   (same_order s1 s2 \<longrightarrow> js_holding_returns L s1 = js_holding_returns L s2) \<and>
   (distinct tickers \<longrightarrow> map fst (fetch_stock_returns L download history tickers) = tickers)"
  by (simp add: js_holdings_cong js_etf_returns_cong js_holding_returns_cong
      fetch_stock_returns_order)

theorem serializers_order_witness:
  "dict_eq [(''XUTC'', [nvda]), (''SP20'', [])] [(''SP20'', []), (''XUTC'', [nvda])] \<and>
   js_holdings python [(''XUTC'', [nvda]), (''SP20'', [])] =
   js_holdings python [(''SP20'', []), (''XUTC'', [nvda])] \<and>
   dict_eq2 [(''XUTC'', [(''1M'', 1), (''1Y'', 2 :: rat)])] [(''XUTC'', [(''1Y'', 2), (''1M'', 1)])] \<and>
   js_etf_returns python [(''XUTC'', [(''1M'', 1), (''1Y'', 2)])] =
   js_etf_returns python [(''XUTC'', [(''1Y'', 2), (''1M'', 1)])] \<and>
   same_order [(''AAPL'', [(''1M'', Some 1), (''1Y'', None)])]
              [(''AAPL'', [(''1Y'', None), (''1M'', Some (1 :: rat))])] \<and>
   js_holding_returns python [(''AAPL'', [(''1M'', Some 1), (''1Y'', None)])] =
   js_holding_returns python [(''AAPL'', [(''1Y'', None), (''1M'', Some 1)])] \<and>
   distinct [''AAPL'', ''BRK_B''] \<and>
   map fst (fetch_stock_returns python None example_history [''AAPL'', ''BRK_B'']) = [''AAPL'', ''BRK_B'']"
proof -
  have h: "dict_eq [(''XUTC'', [nvda]), (''SP20'', [])] [(''SP20'', []), (''XUTC'', [nvda])]"
    by (simp add: dict_eq_def fun_eq_iff)
  have e: "dict_eq2 [(''XUTC'', [(''1M'', 1), (''1Y'', 2 :: rat)])] [(''XUTC'', [(''1Y'', 2), (''1M'', 1)])]"
    by (simp add: dict_eq2_def dict_eq_def fun_eq_iff)
  have s: "same_order [(''AAPL'', [(''1M'', Some 1), (''1Y'', None)])]
              [(''AAPL'', [(''1Y'', None), (''1M'', Some (1 :: rat))])]"
    by (simp add: same_order_def dict_eq_def fun_eq_iff)
  have d: "distinct [''AAPL'', ''BRK_B'']" by simp
  from h e s d
    serializers_order [of "[(''XUTC'', [nvda]), (''SP20'', [])]" "[(''SP20'', []), (''XUTC'', [nvda])]"
      python "[(''XUTC'', [(''1M'', 1), (''1Y'', 2)])]" "[(''XUTC'', [(''1Y'', 2), (''1M'', 1)])]"
      "[(''AAPL'', [(''1M'', Some 1), (''1Y'', None)])]" "[(''AAPL'', [(''1Y'', None), (''1M'', Some 1)])]"
      "[''AAPL'', ''BRK_B'']" None example_history]
  show ?thesis by blast
qed

section \<open>Escaping in the holdings block\<close>

lemma escape_quotes_Nil: "escape_quotes [] = []"
  by (simp add: escape_quotes_def)

lemma escape_quotes_Cons:
  "escape_quotes (c # cs) =
     (if c = CHR 0x22 then [CHR 0x5C, CHR 0x22] @ escape_quotes cs else c # escape_quotes cs)"
  by (simp add: escape_quotes_def)

lemma js_string_escape:
  assumes "CHR 0x5C \<notin> set s" and "CHR 0x0A \<notin> set s" and "CHR 0x0D \<notin> set s"
  shows "js_string (escape_quotes s @ CHR 0x22 # rest) = Some (s, rest)"
  using assms
proof (induction s)
  case Nil
  show ?case by (cases rest) (simp_all add: escape_quotes_Nil)
next
  case (Cons c s)
  then have IH: "js_string (escape_quotes s @ CHR 0x22 # rest) = Some (s, rest)" by simp
  obtain x xs where ne: "escape_quotes s @ CHR 0x22 # rest = x # xs"
    by (cases "escape_quotes s @ CHR 0x22 # rest") simp_all
  show ?case
  proof (cases "c = CHR 0x22")
    case True
    with IH show ?thesis by (simp add: escape_quotes_Cons)
  next
    case False
    with Cons.prems have "c \<noteq> CHR 0x5C" "c \<noteq> CHR 0x0A" "c \<noteq> CHR 0x0D" by auto
    with False IH ne show ?thesis by (simp add: escape_quotes_Cons)
  qed
qed

text \<open>
  C9, as claimed, fails: the serializer leaves the closing delimiter of the block alone.
  A holding named \<open>a};b\<close> puts \<open>};\<close> inside the block, and the pattern of the patcher,
  matched against the block of 162 characters, ends after 60 of them, inside the name.
\<close>

theorem closing_delimiter_forged:
  "block_match RAW_HOLDINGS_OPEN
     (js_holdings python [(''XUTC'', [\<lparr>ticker = ''X'', name = ''a};b'', weight = 1\<rparr>])]) = Some 60 \<and>
   length (js_holdings python [(''XUTC'', [\<lparr>ticker = ''X'', name = ''a};b'', weight = 1\<rparr>])]) = 162"
  by code_simp

text \<open>
  C9, amended. The serializer writes the ticker and the name of a holding between double
  quotes, with a backslash put before every double quote of the text. For a text free of
  backslashes and line breaks, a JavaScript reader that starts after the opening quote
  reads back exactly the text and stops at the quote the serializer wrote. Nothing is
  said here of a text with a backslash, and the closing delimiter of the block is not
  protected.
\<close>

theorem quotes_escaped:
  "(CHR 0x5C \<notin> set s \<and> CHR 0x0A \<notin> set s \<and> CHR 0x0D \<notin> set s \<longrightarrow>
      js_string (escape_quotes s @ CHR 0x22 # rest) = Some (s, rest)) \<and>
   holding_line L h =
     ''    { ticker:'' @ CHR 0x22 # escape_quotes (ticker h) @ CHR 0x22 #
     '', name:'' @ CHR 0x22 # escape_quotes (name h) @ CHR 0x22 #
     '', weight:'' @ py_format L ''5.2f'' (weight h) @ '' },''"
  by (simp add: js_string_escape holding_line_def)

theorem quotes_escaped_witness:
  "CHR 0x5C \<notin> set (''6'' @ [CHR 0x22]) \<and> CHR 0x0A \<notin> set (''6'' @ [CHR 0x22]) \<and>
   CHR 0x0D \<notin> set (''6'' @ [CHR 0x22]) \<and>
   escape_quotes (''6'' @ [CHR 0x22]) = ''6'' @ [CHR 0x5C, CHR 0x22] \<and>
   js_string (''6'' @ [CHR 0x5C, CHR 0x22] @ CHR 0x22 # '', weight'') = Some (''6'' @ [CHR 0x22], '', weight'')"
proof -
  have a: "CHR 0x5C \<notin> set (''6'' @ [CHR 0x22]) \<and> CHR 0x0A \<notin> set (''6'' @ [CHR 0x22]) \<and>
   CHR 0x0D \<notin> set (''6'' @ [CHR 0x22])"
    by simp
  have e: "escape_quotes (''6'' @ [CHR 0x22]) = ''6'' @ [CHR 0x5C, CHR 0x22]"
    by (simp add: escape_quotes_def)
  from quotes_escaped [of "''6'' @ [CHR 0x22]" "'', weight''"] a
  have "js_string (escape_quotes (''6'' @ [CHR 0x22]) @ CHR 0x22 # '', weight'') =
      Some (''6'' @ [CHR 0x22], '', weight'')"
    by blast
  with a e show ?thesis by simp
qed

section \<open>The scan of a substitution\<close>
































lemma block_sub_expand: "block_sub m B I \<Longrightarrow> expand I mt = B"
  by (simp add: block_sub_def)












subsection \<open>Substituting several blocks\<close>






















section \<open>Running the patcher twice\<close>




section \<open>What the patcher leaves alone\<close>


subsection \<open>Patterns given by parts\<close>














subsection \<open>Steps that leave a stretch of the document alone\<close>






subsection \<open>Steps that keep a text closed\<close>




subsection \<open>What a template expands to\<close>








subsection \<open>The steps of the patcher\<close>























end
